theory Spec2Isabelle
  imports Main "HOL-Library.Word" "HOL-Library.Sublist"
begin

section \<open>Data model of \<^verbatim>\<open>main.py\<close>\<close>

text \<open>
  Values that travel as JSON (request bodies, upstream events, tool-call arguments,
  messages sent to the browser) are Python objects made of \<^verbatim>\<open>None\<close>, booleans,
  integers, strings, lists and dictionaries. A dictionary is an association list: a
  lookup returns the first binding of the key. Strings are byte strings: a character
  outside ASCII is its UTF-8 bytes. Non-integer numbers are outside the model.
\<close>

type_synonym byte = "8 word"

datatype json =
    JNull
  | JBool bool
  | JInt int
  | JStr string
  | JArr "json list"
  | JObj "(string \<times> json) list"

text \<open>Python truthiness, as used by \<^verbatim>\<open>if user_message:\<close> and \<^verbatim>\<open>if msg.get("bytes"):\<close>.\<close>

fun truthy :: "json \<Rightarrow> bool" where
  "truthy JNull = False"
| "truthy (JBool b) = b"
| "truthy (JInt i) = (i \<noteq> 0)"
| "truthy (JStr s) = (s \<noteq> [])"
| "truthy (JArr xs) = (xs \<noteq> [])"
| "truthy (JObj kvs) = (kvs \<noteq> [])"

text \<open>\<^verbatim>\<open>d.get(k, default)\<close> on a dictionary.\<close>

definition obj_get :: "(string \<times> json) list \<Rightarrow> string \<Rightarrow> json \<Rightarrow> json" where
  "obj_get kvs k d = (case map_of kvs k of None \<Rightarrow> d | Some v \<Rightarrow> v)"

text \<open>\<^verbatim>\<open>d[k] = v\<close> on a dictionary: an existing key keeps its place, a new key goes last.\<close>

fun obj_set :: "(string \<times> json) list \<Rightarrow> string \<Rightarrow> json \<Rightarrow> (string \<times> json) list" where
  "obj_set [] k v = [(k, v)]"
| "obj_set ((k', v') # kvs) k v = (if k' = k then (k, v) # kvs else (k', v') # obj_set kvs k v)"

text \<open>
  \<^verbatim>\<open>function_args["action"] = "book"\<close>. The value comes out of \<^verbatim>\<open>json.loads\<close>, so it
  need not be a dictionary; item assignment with a string key raises \<^verbatim>\<open>TypeError\<close> on
  every other JSON value (\<open>None\<close> stands for the raised exception).
\<close>

fun set_action :: "json \<Rightarrow> json option" where
  "set_action (JObj kvs) = Some (JObj (obj_set kvs ''action'' (JStr ''book'')))"
| "set_action _ = None"

datatype role = System | User | Assistant

record turn =
  role :: role
  content :: json

subsection \<open>The outside world\<close>

text \<open>
  Everything the program does to the outside is recorded, in order, in a trace of
  effects. A send to a socket is recorded when it is attempted; \<open>UpstreamSend\<close> carries
  the object given to \<^verbatim>\<open>json.dumps\<close>. What the program prints is not recorded.
\<close>

datatype effect =
    LLMCall "turn list"
  | WebhookPost string json
  | ClientAccept
  | ClientJson json
  | ClientBytes "byte list"
  | ClientClose
  | UpstreamSend json

text \<open>
  \<^verbatim>\<open>client.chat.completions.create(...)\<close> raises, or returns a message with a content
  (a string or \<^verbatim>\<open>None\<close>) and a list of tool calls (\<^verbatim>\<open>None\<close> is the empty list). Each tool
  call is given by what \<^verbatim>\<open>json.loads\<close> makes of its argument string: \<open>None\<close> when
  \<^verbatim>\<open>json.loads\<close> raises.
\<close>

datatype llm_outcome = LLMRaises | LLMMessage json "json option list"

text \<open>\<^verbatim>\<open>requests.post(...)\<close> raises, or returns a response with a status code.\<close>

datatype post_outcome = PostRaises | PostStatus int

text \<open>
  The environment: the configuration read at import time and the answers of the outside
  world. Each answer may depend on everything that happened before, the call being
  answered included (the trace ends with it). \<open>upstream_send\<close> answers \<open>None\<close> when the
  send succeeds, and the exception's type name and text when it raises.
  \<open>b64decode\<close> is \<^verbatim>\<open>base64.b64decode\<close> (\<open>None\<close> when it raises) and \<open>py_str\<close> is the
  formatting of a value inside an f-string; both are the library's.
\<close>

record env =
  MAKE_WEBHOOK_URL :: "string option"
  chat_completions_create :: "effect list \<Rightarrow> llm_outcome"
  requests_post :: "effect list \<Rightarrow> post_outcome"
  client_send_ok :: "effect list \<Rightarrow> bool"
  upstream_send :: "effect list \<Rightarrow> (string \<times> string) option"
  b64decode :: "json \<Rightarrow> byte list option"
  py_str :: "json \<Rightarrow> string"

section \<open>Constants\<close>

definition SYSTEM_INSTRUCTIONS :: string where
  "SYSTEM_INSTRUCTIONS =
     ''You are a friendly AI receptionist. '' @
     ''Greet the user first and ask politely how you can help. '' @
     ''Help users book appointments. '' @
     ''Ask politely for any missing details (name, email, phone, service, date, time). '' @
     ''Once all details are collected, use the book_appointment tool to finalize the booking.''"

definition sentinel_phrase :: string where
  "sentinel_phrase = ''Wrap it in triple backticks with json.''"

definition fallback_reply :: string where
  "fallback_reply =
     ''Sorry, I'' @ [CHR 0x27] @ ''m having trouble connecting to my brain right now. Please try again later.''"

text \<open>The two emoji of the booking replies, U+2705 and U+274C, in UTF-8.\<close>

definition check_mark :: string where
  "check_mark = [CHR 0xE2, CHR 0x9C, CHR 0x85]"

definition cross_mark :: string where
  "cross_mark = [CHR 0xE2, CHR 0x9D, CHR 0x8C]"

section \<open>Webhook dispatch\<close>

text \<open>
  \<^verbatim>\<open>send_to_make(data)\<close>: no request when the URL is unset or empty; otherwise one
  \<^verbatim>\<open>requests.post\<close>, and the result is \<^verbatim>\<open>r.status_code == 200\<close>, or \<^verbatim>\<open>False\<close> when the
  request raises.
\<close>

definition send_to_make :: "env \<Rightarrow> json \<Rightarrow> effect list \<Rightarrow> bool \<times> effect list" where
  "send_to_make E data tr =
     (case MAKE_WEBHOOK_URL E of
        None \<Rightarrow> (False, tr)
      | Some url \<Rightarrow>
          if url = [] then (False, tr)
          else
            (let tr' = tr @ [WebhookPost url data] in
             case requests_post E tr' of
               PostRaises \<Rightarrow> (False, tr')
             | PostStatus c \<Rightarrow> (c = 200, tr')))"

section \<open>Booking extraction in a voice session\<close>

text \<open>
  \<^verbatim>\<open>check_for_booking(history)\<close> returns nothing; its only result is what it did to the
  outside. Every exception inside it is caught by its \<^verbatim>\<open>except Exception\<close>.
\<close>

definition check_for_booking :: "env \<Rightarrow> turn list \<Rightarrow> effect list \<Rightarrow> effect list" where
  "check_for_booking E history tr =
     (let tr1 = tr @ [LLMCall history] in
      case chat_completions_create E tr1 of
        LLMRaises \<Rightarrow> tr1
      | LLMMessage reply_content tool_calls \<Rightarrow>
          (case tool_calls of
             [] \<Rightarrow> tr1
           | tc # _ \<Rightarrow>
               (case tc of
                  None \<Rightarrow> tr1
                | Some loaded \<Rightarrow>
                    (case set_action loaded of
                       None \<Rightarrow> tr1
                     | Some function_args \<Rightarrow> snd (send_to_make E function_args tr1)))))"

section \<open>The plain-text message processor\<close>

text \<open>A value inside an f-string: a string is inserted as it is, anything else through \<^verbatim>\<open>str\<close>.\<close>

definition fmt :: "env \<Rightarrow> json \<Rightarrow> string" where
  "fmt E v = (case v of JStr s \<Rightarrow> s | _ \<Rightarrow> py_str E v)"

definition booked_reply :: "env \<Rightarrow> (string \<times> json) list \<Rightarrow> string" where
  "booked_reply E function_args =
     check_mark @ '' Your appointment for '' @
     fmt E (obj_get function_args ''service'' (JStr ''your service'')) @
     '' on '' @ fmt E (obj_get function_args ''date'' (JStr ''the selected date'')) @
     '' at '' @ fmt E (obj_get function_args ''time'' (JStr ''the selected time'')) @
     '' is booked.''"

definition failed_reply :: string where
  "failed_reply = cross_mark @ '' Booking failed. Please try again.''"

text \<open>
  The body of the \<^verbatim>\<open>try\<close> of \<^verbatim>\<open>process_user_message\<close>, with its \<^verbatim>\<open>except Exception\<close>:
  the reply and the trace. Every exception gives the fallback reply.
\<close>

definition compute_reply :: "env \<Rightarrow> turn list \<Rightarrow> effect list \<Rightarrow> json \<times> effect list" where
  "compute_reply E history tr =
     (let tr1 = tr @ [LLMCall history] in
      case chat_completions_create E tr1 of
        LLMRaises \<Rightarrow> (JStr fallback_reply, tr1)
      | LLMMessage reply_content tool_calls \<Rightarrow>
          (case tool_calls of
             [] \<Rightarrow> (reply_content, tr1)
           | tc # _ \<Rightarrow>
               (case tc of
                  None \<Rightarrow> (JStr fallback_reply, tr1)
                | Some loaded \<Rightarrow>
                    (case set_action loaded of
                       Some (JObj function_args) \<Rightarrow>
                         (let (success, tr2) = send_to_make E (JObj function_args) tr1 in
                          (JStr (if success then booked_reply E function_args else failed_reply), tr2))
                     | _ \<Rightarrow> (JStr fallback_reply, tr1)))))"

text \<open>
  \<^verbatim>\<open>process_user_message(user_message)\<close>: the process-wide \<^verbatim>\<open>chat_history\<close> is passed in
  and returned. The result is the reply, the new history and the trace.
\<close>

definition process_user_message ::
  "env \<Rightarrow> json \<Rightarrow> turn list \<Rightarrow> effect list \<Rightarrow> json \<times> turn list \<times> effect list" where
  "process_user_message E user_message chat_history tr =
     (let h1 = (if truthy user_message
                then chat_history @ [\<lparr>role = User, content = user_message\<rparr>]
                else chat_history);
          (reply, tr1) = compute_reply E h1 tr
      in (reply, h1 @ [\<lparr>role = Assistant, content = reply\<rparr>], tr1))"

section \<open>Library functions used by the voice session\<close>

text \<open>
  \<^verbatim>\<open>s.replace(old, new)\<close>: the occurrences of \<open>old\<close> are replaced from left to right,
  without overlap; an empty \<open>old\<close> matches before every character and at the end.
\<close>

function str_replace :: "string \<Rightarrow> string \<Rightarrow> string \<Rightarrow> string" where
  "str_replace old new [] = (if old = [] then new else [])"
| "str_replace old new (c # cs) =
     (if old = [] then new @ c # str_replace old new cs
      else if prefix old (c # cs) then new @ str_replace old new (drop (length old) (c # cs))
      else c # str_replace old new cs)"
  by pat_completeness auto
termination
  by (relation "measure (\<lambda>(old, new, s). length s)") (auto simp: neq_Nil_conv)

text \<open>An integer inside an f-string: its decimal digits.\<close>

definition digit_char :: "nat \<Rightarrow> char" where
  "digit_char d = ''0123456789'' ! (d mod 10)"

function str_nat :: "nat \<Rightarrow> string" where
  "str_nat n = (if n < 10 then [digit_char n] else str_nat (n div 10) @ [digit_char n])"
  by pat_completeness auto
termination
  by (relation "measure id") auto

definition str_int :: "int \<Rightarrow> string" where
  "str_int i = (if i < 0 then CHR ''-'' # str_nat (nat (- i)) else str_nat (nat i))"

text \<open>
  \<^verbatim>\<open>base64.b64encode(data).decode("utf-8")\<close>: three bytes give four characters of the
  standard alphabet; a last group of one or two bytes is padded with \<open>=\<close>.
\<close>

definition b64_alphabet :: string where
  "b64_alphabet = ''ABCDEFGHIJKLMNOPQRSTUVWXYZabcdefghijklmnopqrstuvwxyz0123456789+/''"

definition b64_char :: "nat \<Rightarrow> char" where
  "b64_char n = b64_alphabet ! (n mod 64)"

fun b64encode :: "byte list \<Rightarrow> string" where
  "b64encode [] = []"
| "b64encode [a] =
     (let n = unat a * 16 in [b64_char (n div 64), b64_char n, CHR ''='', CHR ''=''])"
| "b64encode [a, b] =
     (let n = (unat a * 256 + unat b) * 4
      in [b64_char (n div 4096), b64_char (n div 64), b64_char n, CHR ''=''])"
| "b64encode (a # b # c # rest) =
     (let n = unat a * 65536 + unat b * 256 + unat c
      in [b64_char (n div 262144), b64_char (n div 4096), b64_char (n div 64), b64_char n]
         @ b64encode rest)"

section \<open>The voice session\<close>

subsection \<open>Messages\<close>

definition append_event :: "byte list \<Rightarrow> json" where
  "append_event data =
     JObj [(''type'', JStr ''input_audio_buffer.append''), (''audio'', JStr (b64encode data))]"

definition transcript_msg :: "json \<Rightarrow> json" where
  "transcript_msg delta = JObj [(''type'', JStr ''transcript''), (''text'', delta)]"

definition user_transcript_msg :: "json \<Rightarrow> json" where
  "user_transcript_msg user_transcript =
     JObj [(''type'', JStr ''user_transcript''), (''text'', user_transcript)]"

definition response_end_msg :: json where
  "response_end_msg = JObj [(''type'', JStr ''response_end'')]"

definition error_msg :: "json \<Rightarrow> json" where
  "error_msg m = JObj [(''type'', JStr ''error''), (''message'', m)]"

definition service_error_msg :: json where
  "service_error_msg = error_msg (JStr ''An error occurred with the AI service.'')"

definition session_config :: json where
  "session_config =
     JObj [(''type'', JStr ''session.update''),
           (''session'', JObj
              [(''modalities'', JArr [JStr ''text'', JStr ''audio'']),
               (''instructions'', JStr SYSTEM_INSTRUCTIONS),
               (''voice'', JStr ''alloy''),
               (''input_audio_format'', JStr ''pcm16''),
               (''output_audio_format'', JStr ''pcm16''),
               (''input_audio_transcription'',
                  JObj [(''model'', JStr ''whisper-1''), (''language'', JStr ''en'')]),
               (''turn_detection'', JObj [(''type'', JStr ''server_vad'')])])]"

subsection \<open>Browser to upstream: \<^verbatim>\<open>receive_from_client\<close>\<close>

text \<open>
  What \<^verbatim>\<open>websocket.receive()\<close> returns: a message with \<^verbatim>\<open>bytes\<close> (a binary frame), a
  message with \<^verbatim>\<open>text\<close>, or the disconnect message. After the disconnect message the
  next \<^verbatim>\<open>receive()\<close> raises; so does a \<^verbatim>\<open>receive()\<close> when nothing more arrives, which is
  the end of the list. Both end the loop through its \<^verbatim>\<open>except\<close> clauses, which only print.
\<close>

datatype client_frame = BinaryFrame "byte list" | TextFrame string | Disconnect

text \<open>\<^verbatim>\<open>msg.get("bytes")\<close>, with Python's \<^verbatim>\<open>None\<close> as \<open>None\<close>.\<close>

fun msg_bytes :: "client_frame \<Rightarrow> byte list option" where
  "msg_bytes (BinaryFrame data) = Some data"
| "msg_bytes (TextFrame t) = None"
| "msg_bytes Disconnect = None"

text \<open>
  The loop. \<^verbatim>\<open>if msg.get("bytes"):\<close> is false for \<^verbatim>\<open>None\<close> and for the empty byte string.
  A send to upstream that raises ends the loop.
\<close>

fun receive_from_client :: "env \<Rightarrow> client_frame list \<Rightarrow> effect list \<Rightarrow> effect list" where
  "receive_from_client E [] tr = tr"
| "receive_from_client E (Disconnect # msgs) tr = tr"
| "receive_from_client E (msg # msgs) tr =
     (case msg_bytes msg of
        None \<Rightarrow> receive_from_client E msgs tr
      | Some data \<Rightarrow>
          if data = [] then receive_from_client E msgs tr
          else
            (let tr' = tr @ [UpstreamSend (append_event data)] in
             case upstream_send E tr' of
               None \<Rightarrow> receive_from_client E msgs tr'
             | Some e \<Rightarrow> tr'))"

subsection \<open>Upstream to browser: \<^verbatim>\<open>receive_from_openai\<close>\<close>

text \<open>
  The state of one session: the conversation log and the accumulated assistant utterance.
\<close>

record session =
  session_chat_history :: "turn list"
  current_ai_response :: string

text \<open>
  One pass through the body of the \<^verbatim>\<open>async for\<close>. The upstream message is given by what
  \<^verbatim>\<open>json.loads\<close> makes of it (\<open>None\<close> when it raises). The first component of the result
  says that the body finished without an exception.
\<close>

definition receive_from_openai_body ::
  "env \<Rightarrow> json option \<Rightarrow> session \<Rightarrow> effect list \<Rightarrow> bool \<times> session \<times> effect list" where
  "receive_from_openai_body E message s tr =
     (case message of
        Some (JObj event) \<Rightarrow>
          (let event_type = obj_get event ''type'' JNull in
           if event_type = JStr ''response.audio.delta'' then
             (case b64decode E (obj_get event ''delta'' (JStr [])) of
                None \<Rightarrow> (False, s, tr)
              | Some pcm_bytes \<Rightarrow>
                  (let tr' = tr @ [ClientBytes pcm_bytes] in (client_send_ok E tr', s, tr')))
           else if event_type = JStr ''response.audio_transcript.delta'' then
             (case obj_get event ''delta'' (JStr []) of
                JStr delta \<Rightarrow>
                  (let s' = s\<lparr>current_ai_response := current_ai_response s @ delta\<rparr>;
                       tr' = tr @ [ClientJson (transcript_msg (JStr delta))]
                   in (client_send_ok E tr', s', tr'))
              | _ \<Rightarrow> (False, s, tr))
           else if event_type = JStr ''conversation.item.input_audio_transcription.completed'' then
             (let user_transcript = obj_get event ''transcript'' (JStr []);
                  s' = (if truthy user_transcript
                        then s\<lparr>session_chat_history := session_chat_history s @
                                  [\<lparr>role = User, content = user_transcript\<rparr>]\<rparr>
                        else s);
                  tr1 = (if truthy user_transcript
                         then check_for_booking E (session_chat_history s') tr
                         else tr);
                  tr2 = tr1 @ [ClientJson (user_transcript_msg user_transcript)]
              in (client_send_ok E tr2, s', tr2))
           else if event_type = JStr ''response.done'' then
             (let s' = (if current_ai_response s \<noteq> []
                        then s\<lparr>session_chat_history := session_chat_history s @
                                  [\<lparr>role = Assistant, content = JStr (current_ai_response s)\<rparr>],
                               current_ai_response := []\<rparr>
                        else s);
                  tr' = tr @ [ClientJson response_end_msg]
              in (client_send_ok E tr', s', tr'))
           else if event_type = JStr ''error'' then
             (case obj_get event ''error'' (JObj []) of
                JObj err \<Rightarrow>
                  (True, s, tr @ [ClientJson (error_msg (obj_get err ''message'' (JStr ''Unknown error'')))])
              | _ \<Rightarrow> (False, s, tr))
           else (True, s, tr))
      | _ \<Rightarrow> (False, s, tr))"

text \<open>
  The loop over the upstream messages; the end of the list is the upstream closing. An
  exception in the body ends the loop, after one attempt to tell the browser.
\<close>

fun receive_from_openai ::
  "env \<Rightarrow> json option list \<Rightarrow> session \<Rightarrow> effect list \<Rightarrow> session \<times> effect list" where
  "receive_from_openai E [] s tr = (s, tr)"
| "receive_from_openai E (message # messages) s tr =
     (case receive_from_openai_body E message s tr of
        (ok, s', tr') \<Rightarrow>
          if ok then receive_from_openai E messages s' tr'
          else (s', tr' @ [ClientJson service_error_msg]))"

subsection \<open>The session: \<^verbatim>\<open>ws_voice\<close>\<close>

text \<open>
  \<^verbatim>\<open>websockets.connect(...)\<close> gives a connection, raises \<^verbatim>\<open>InvalidStatusCode\<close> with the
  status of the rejected handshake, or raises another exception, given by its type name
  and text.
\<close>

datatype connect_outcome = Connected | InvalidStatusCode int | ConnectRaises string string

definition initial_history :: "turn list" where
  "initial_history =
     [\<lparr>role = System, content = JStr (str_replace sentinel_phrase [] SYSTEM_INSTRUCTIONS)\<rparr>]"

text \<open>
  The result of a session: what happened before the two loops (or instead of them), and
  the result of each loop when it was started. The two loops run concurrently, one per
  direction, and share no state; each is given by its own trace, which continues the
  trace of what came before. The session starts with \<^verbatim>\<open>websocket.accept()\<close>, taken to
  succeed; the last \<^verbatim>\<open>websocket.close()\<close> of a failed connection is recorded as attempted.
\<close>

record voice_run =
  prologue :: "effect list"
  client_loop :: "effect list option"
  openai_loop :: "(session \<times> effect list) option"

definition connection_failed :: "string \<Rightarrow> voice_run" where
  "connection_failed error_text =
     \<lparr>prologue = [ClientAccept, ClientJson (error_msg (JStr error_text)), ClientClose],
      client_loop = None, openai_loop = None\<rparr>"

definition ws_voice ::
  "env \<Rightarrow> connect_outcome \<Rightarrow> client_frame list \<Rightarrow> json option list \<Rightarrow> voice_run" where
  "ws_voice E outcome frames messages =
     (case outcome of
        InvalidStatusCode status_code \<Rightarrow>
          connection_failed (''OpenAI connection failed with status '' @ str_int status_code)
      | ConnectRaises type_name text \<Rightarrow>
          connection_failed (''Connection error: '' @ type_name @ '': '' @ text)
      | Connected \<Rightarrow>
          (let tr = [ClientAccept, UpstreamSend session_config] in
           case upstream_send E tr of
             Some (type_name, text) \<Rightarrow>
               \<lparr>prologue = tr @ [ClientJson (error_msg (JStr (''Connection error: '' @ type_name @ '': '' @ text))),
                              ClientClose],
                client_loop = None, openai_loop = None\<rparr>
           | None \<Rightarrow>
               \<lparr>prologue = tr,
                client_loop = Some (receive_from_client E frames tr),
                openai_loop = Some (receive_from_openai E messages
                   \<lparr>session_chat_history = initial_history, current_ai_response = []\<rparr> tr)\<rparr>))"

section \<open>Vocabulary of the statements\<close>

text \<open>
  Upstream events are recognised by what the loop reads of them: the \<^verbatim>\<open>type\<close> field and
  the payload field with its default. Every other field of the event is free.
\<close>

fun is_transcript_delta :: "json option \<Rightarrow> string \<Rightarrow> bool" where
  "is_transcript_delta (Some (JObj event)) delta =
     (obj_get event ''type'' JNull = JStr ''response.audio_transcript.delta'' \<and>
      obj_get event ''delta'' (JStr []) = JStr delta)"
| "is_transcript_delta _ delta = False"

fun is_response_done :: "json option \<Rightarrow> bool" where
  "is_response_done (Some (JObj event)) = (obj_get event ''type'' JNull = JStr ''response.done'')"
| "is_response_done _ = False"

fun is_user_transcript :: "json option \<Rightarrow> json \<Rightarrow> bool" where
  "is_user_transcript (Some (JObj event)) user_transcript =
     (obj_get event ''type'' JNull = JStr ''conversation.item.input_audio_transcription.completed'' \<and>
      obj_get event ''transcript'' (JStr []) = user_transcript)"
| "is_user_transcript _ user_transcript = False"

text \<open>
  The text an upstream event adds to the accumulated assistant utterance: the \<^verbatim>\<open>delta\<close>
  of an assistant-transcript delta, nothing for any other event.
\<close>

fun delta_text :: "json option \<Rightarrow> string" where
  "delta_text (Some (JObj event)) =
     (if obj_get event ''type'' JNull = JStr ''response.audio_transcript.delta''
      then (case obj_get event ''delta'' (JStr []) of JStr delta \<Rightarrow> delta | _ \<Rightarrow> [])
      else [])"
| "delta_text _ = []"

text \<open>
  The loop over a stretch of upstream messages during which no pass through the body
  raises; \<open>None\<close> when one does.
\<close>

fun bodies_ok ::
  "env \<Rightarrow> json option list \<Rightarrow> session \<Rightarrow> effect list \<Rightarrow> (session \<times> effect list) option" where
  "bodies_ok E [] s tr = Some (s, tr)"
| "bodies_ok E (message # messages) s tr =
     (case receive_from_openai_body E message s tr of
        (ok, s', tr') \<Rightarrow> if ok then bodies_ok E messages s' tr' else None)"

text \<open>
  A completed user utterance: a user-transcript-completed event whose transcript is
  truthy, which is when the loop logs it and runs the extraction.
\<close>

fun is_utterance :: "json option \<Rightarrow> bool" where
  "is_utterance (Some (JObj event)) =
     (obj_get event ''type'' JNull = JStr ''conversation.item.input_audio_transcription.completed'' \<and>
      truthy (obj_get event ''transcript'' (JStr [])))"
| "is_utterance _ = False"

fun is_llm_call :: "effect \<Rightarrow> bool" where
  "is_llm_call (LLMCall history) = True"
| "is_llm_call _ = False"

text \<open>
  The extraction fails when something raises inside \<^verbatim>\<open>check_for_booking\<close> before the
  webhook is reached: the call to the language model, \<^verbatim>\<open>json.loads\<close> on the arguments of
  the first tool call, or the assignment of the \<^verbatim>\<open>action\<close> key.
\<close>

fun extraction_raises :: "llm_outcome \<Rightarrow> bool" where
  "extraction_raises LLMRaises = True"
| "extraction_raises (LLMMessage reply_content []) = False"
| "extraction_raises (LLMMessage reply_content (None # tcs)) = True"
| "extraction_raises (LLMMessage reply_content (Some loaded # tcs)) = (set_action loaded = None)"

text \<open>A webhook delivery fails when the request raises or its status is outside 200..299.\<close>

fun delivery_failed :: "post_outcome \<Rightarrow> bool" where
  "delivery_failed PostRaises = True"
| "delivery_failed (PostStatus c) = (c < 200 \<or> 300 \<le> c)"

text \<open>The binary frames of a list that carry at least one byte, in order.\<close>

definition audio_chunks :: "client_frame list \<Rightarrow> byte list list" where
  "audio_chunks frames = [data. BinaryFrame data \<leftarrow> frames, data \<noteq> []]"

subsection \<open>Concrete inputs\<close>

definition delta_event :: "string \<Rightarrow> json option" where
  "delta_event delta =
     Some (JObj [(''type'', JStr ''response.audio_transcript.delta''), (''delta'', JStr delta)])"

definition done_event :: "json option" where
  "done_event = Some (JObj [(''type'', JStr ''response.done'')])"

definition user_event :: "string \<Rightarrow> json option" where
  "user_event transcript =
     Some (JObj [(''type'', JStr ''conversation.item.input_audio_transcription.completed''),
                 (''transcript'', JStr transcript)])"

definition audio_event :: "string \<Rightarrow> json option" where
  "audio_event payload =
     Some (JObj [(''type'', JStr ''response.audio.delta''), (''delta'', JStr payload)])"

definition created_event :: "json option" where
  "created_event = Some (JObj [(''type'', JStr ''response.created'')])"

definition fresh_session :: session where
  "fresh_session = \<lparr>session_chat_history = initial_history, current_ai_response = []\<rparr>"

definition hook_url :: string where
  "hook_url = ''https://hook.example/booking''"

definition booking_args :: "(string \<times> json) list" where
  "booking_args =
     [(''name'', JStr ''Jane''), (''email'', JStr ''jane@x.com''), (''phone'', JStr ''555-1234''),
      (''service'', JStr ''haircut''), (''date'', JStr ''2025-01-10''), (''time'', JStr ''15:00'')]"

text \<open>
  An environment where everything works: the webhook is configured and answers 200, the
  model answers in plain text, and both sockets accept every send.
\<close>

definition quiet_env :: env where
  "quiet_env =
     \<lparr>MAKE_WEBHOOK_URL = Some hook_url,
      chat_completions_create = (\<lambda>tr. LLMMessage (JStr ''How can I help?'') []),
      requests_post = (\<lambda>tr. PostStatus 200),
      client_send_ok = (\<lambda>tr. True),
      upstream_send = (\<lambda>tr. None),
      b64decode = (\<lambda>v. None),
      py_str = (\<lambda>v. [])\<rparr>"

text \<open>The model calls the booking tool.\<close>

definition booking_env :: env where
  "booking_env =
     quiet_env\<lparr>chat_completions_create := (\<lambda>tr. LLMMessage JNull [Some (JObj booking_args)])\<rparr>"

text \<open>The model calls the booking tool and the webhook answers 201 Created.\<close>

definition created_env :: env where
  "created_env = booking_env\<lparr>requests_post := (\<lambda>tr. PostStatus 201)\<rparr>"

text \<open>The model calls the booking tool and the webhook answers 500.\<close>

definition broken_hook_env :: env where
  "broken_hook_env = booking_env\<lparr>requests_post := (\<lambda>tr. PostStatus 500)\<rparr>"

text \<open>The call to the model raises.\<close>

definition llm_down_env :: env where
  "llm_down_env = quiet_env\<lparr>chat_completions_create := (\<lambda>tr. LLMRaises)\<rparr>"

section \<open>Webhook dispatch: what counts as success\<close>

text \<open>
  C5, as the code has it. \<^verbatim>\<open>send_to_make\<close> reports success exactly when the webhook URL
  is configured and the one POST it issues returns without raising and with status 200;
  any other status, 201 or 204 included, is reported as a failure. It issues at most one
  request: there is no retry.
\<close>

theorem send_to_make_success_iff_200:
  "fst (send_to_make E data tr) =
     (\<exists>url. MAKE_WEBHOOK_URL E = Some url \<and> url \<noteq> [] \<and>
            requests_post E (tr @ [WebhookPost url data]) = PostStatus 200)
   \<and> (\<exists>new. snd (send_to_make E data tr) = tr @ new \<and> length new \<le> 1)"
  by (auto simp: send_to_make_def Let_def split: option.splits post_outcome.splits)

text \<open>
  The sentence of the specification, success for every status of the 200 class, fails when the
  webhook answers 201: the POST returned a status of the 200 class and \<^verbatim>\<open>send_to_make\<close>
  returns \<^verbatim>\<open>False\<close>.
\<close>

theorem send_to_make_created_counterexample:
  "MAKE_WEBHOOK_URL created_env = Some hook_url \<and>
   requests_post created_env [WebhookPost hook_url (JObj booking_args)] = PostStatus 201 \<and>
   fst (send_to_make created_env (JObj booking_args) []) = False"
  by (simp add: send_to_make_def created_env_def booking_env_def quiet_env_def hook_url_def)

section \<open>The initial history of a voice session\<close>

lemma str_replace_absent:
  "old \<noteq> [] \<Longrightarrow> hd old \<notin> set s \<Longrightarrow> str_replace old new s = s"
  by (induction s) (auto simp: prefix_def neq_Nil_conv)

lemma no_capital_W: "CHR ''W'' \<notin> set SYSTEM_INSTRUCTIONS"
  by (simp add: SYSTEM_INSTRUCTIONS_def)

text \<open>
  C9. The history of a voice session starts with one system turn whose content is
  \<^verbatim>\<open>SYSTEM_INSTRUCTIONS\<close> itself: the sentinel phrase does not occur in it, so the
  replacement changes nothing. That history is what the upstream loop of a session
  starts from, with an empty buffer, once the session configuration has been sent.
\<close>

theorem initial_history_is_system_instructions:
  "initial_history = [\<lparr>role = System, content = JStr SYSTEM_INSTRUCTIONS\<rparr>] \<and>
   str_replace sentinel_phrase [] SYSTEM_INSTRUCTIONS = SYSTEM_INSTRUCTIONS \<and>
   \<not> sublist sentinel_phrase SYSTEM_INSTRUCTIONS \<and>
   (upstream_send E [ClientAccept, UpstreamSend session_config] = None \<longrightarrow>
      openai_loop (ws_voice E Connected frames messages) =
        Some (receive_from_openai E messages
                \<lparr>session_chat_history = [\<lparr>role = System, content = JStr SYSTEM_INSTRUCTIONS\<rparr>],
                 current_ai_response = []\<rparr>
                [ClientAccept, UpstreamSend session_config]))"
proof -
  have hd_W: "sentinel_phrase \<noteq> [] \<and> hd sentinel_phrase = CHR ''W''"
    by (simp add: sentinel_phrase_def)
  then have same: "str_replace sentinel_phrase [] SYSTEM_INSTRUCTIONS = SYSTEM_INSTRUCTIONS"
    using no_capital_W by (simp add: str_replace_absent)
  have absent: "\<not> sublist sentinel_phrase SYSTEM_INSTRUCTIONS"
  proof
    assume "sublist sentinel_phrase SYSTEM_INSTRUCTIONS"
    then have "set sentinel_phrase \<subseteq> set SYSTEM_INSTRUCTIONS"
      by (rule set_mono_sublist)
    moreover have "CHR ''W'' \<in> set sentinel_phrase"
      by (simp add: sentinel_phrase_def)
    ultimately show False using no_capital_W by blast
  qed
  have start: "initial_history = [\<lparr>role = System, content = JStr SYSTEM_INSTRUCTIONS\<rparr>]"
    using same by (simp add: initial_history_def)
  have session: "upstream_send E [ClientAccept, UpstreamSend session_config] = None \<longrightarrow>
      openai_loop (ws_voice E Connected frames messages) =
        Some (receive_from_openai E messages
                \<lparr>session_chat_history = [\<lparr>role = System, content = JStr SYSTEM_INSTRUCTIONS\<rparr>],
                 current_ai_response = []\<rparr>
                [ClientAccept, UpstreamSend session_config])"
    by (simp add: ws_voice_def Let_def start)
  from start same absent session show ?thesis by blast
qed

text \<open>
  A session whose first upstream event is a completed user utterance: the language model
  is called with the system turn, then the user turn.
\<close>

theorem initial_history_witness:
  "openai_loop (ws_voice quiet_env Connected [] [user_event ''Hi'']) =
     Some (\<lparr>session_chat_history =
               [\<lparr>role = System, content = JStr SYSTEM_INSTRUCTIONS\<rparr>,
                \<lparr>role = User, content = JStr ''Hi''\<rparr>],
             current_ai_response = []\<rparr>,
           [ClientAccept, UpstreamSend session_config,
            LLMCall [\<lparr>role = System, content = JStr SYSTEM_INSTRUCTIONS\<rparr>,
                     \<lparr>role = User, content = JStr ''Hi''\<rparr>],
            ClientJson (JObj [(''type'', JStr ''user_transcript''), (''text'', JStr ''Hi'')])])"
proof -
  have ok: "upstream_send quiet_env [ClientAccept, UpstreamSend session_config] = None"
    by (simp add: quiet_env_def)
  show ?thesis
    using initial_history_is_system_instructions [of quiet_env "[]" "[user_event ''Hi'']"] ok
    by (simp add: receive_from_openai_body_def user_event_def obj_get_def Let_def
        user_transcript_msg_def check_for_booking_def quiet_env_def)
qed

section \<open>A rejected handshake\<close>

text \<open>
  C8. When the upstream handshake is rejected, the browser is sent exactly one message,
  an \<^verbatim>\<open>error\<close>, and the socket is closed next; neither loop is started, and nothing is
  sent upstream. This holds on both paths a rejection can take. When the library raises
  \<^verbatim>\<open>InvalidStatusCode\<close>, the text of the message ends with the status. When it raises
  another exception (the client selected by \<^verbatim>\<open>additional_headers\<close> raises
  \<^verbatim>\<open>InvalidStatus\<close>), the generic handler sends the type name and the whole text of the
  exception, which is where the library writes the status.
\<close>

theorem ws_voice_handshake_rejected:
  "ws_voice E (InvalidStatusCode status_code) frames messages =
     \<lparr>prologue = [ClientAccept,
                  ClientJson (JObj [(''type'', JStr ''error''),
                                    (''message'', JStr (''OpenAI connection failed with status ''
                                                        @ str_int status_code))]),
                  ClientClose],
      client_loop = None, openai_loop = None\<rparr>
   \<and> ws_voice E (ConnectRaises type_name text) frames messages =
     \<lparr>prologue = [ClientAccept,
                  ClientJson (JObj [(''type'', JStr ''error''),
                                    (''message'', JStr (''Connection error: '' @ type_name @ '': '' @ text))]),
                  ClientClose],
      client_loop = None, openai_loop = None\<rparr>"
  by (simp add: ws_voice_def connection_failed_def error_msg_def)

text \<open>The handshake is rejected with 401, on either path.\<close>

theorem ws_voice_handshake_rejected_witness:
  "ws_voice quiet_env (InvalidStatusCode 401) [BinaryFrame [77]] [done_event] =
     \<lparr>prologue = [ClientAccept,
                  ClientJson (JObj [(''type'', JStr ''error''),
                                    (''message'', JStr ''OpenAI connection failed with status 401'')]),
                  ClientClose],
      client_loop = None, openai_loop = None\<rparr>
   \<and> ws_voice quiet_env
        (ConnectRaises ''InvalidStatus'' ''server rejected WebSocket connection: HTTP 401'')
        [BinaryFrame [77]] [done_event] =
     \<lparr>prologue = [ClientAccept,
                  ClientJson (JObj [(''type'', JStr ''error''),
                                    (''message'', JStr
       ''Connection error: InvalidStatus: server rejected WebSocket connection: HTTP 401'')]),
                  ClientClose],
      client_loop = None, openai_loop = None\<rparr>"
  using ws_voice_handshake_rejected
    [of quiet_env 401 "[BinaryFrame [77]]" "[done_event]"
        "''InvalidStatus''" "''server rejected WebSocket connection: HTTP 401''"]
  by (simp add: str_int_def digit_char_def)

section \<open>The plain-text message processor and the shared history\<close>

lemma compute_reply_llm_raises:
  "chat_completions_create E (tr @ [LLMCall h]) = LLMRaises \<Longrightarrow>
   fst (compute_reply E h tr) = JStr fallback_reply"
  by (simp add: compute_reply_def)

lemma process_user_message_unfold:
  "process_user_message E user_message chat_history tr =
     (let h1 = (if truthy user_message
                then chat_history @ [\<lparr>role = User, content = user_message\<rparr>]
                else chat_history)
      in (fst (compute_reply E h1 tr),
          h1 @ [\<lparr>role = Assistant, content = fst (compute_reply E h1 tr)\<rparr>],
          snd (compute_reply E h1 tr)))"
  by (simp add: process_user_message_def Let_def split: prod.splits)

text \<open>
  C10. Every call of \<^verbatim>\<open>process_user_message\<close> with a message string appends exactly one
  assistant turn to the shared history, holding the reply it returns; the user turn is
  appended before it exactly when the message is not empty; and when the call to the
  language model raises, the reply is the fixed apology.
\<close>

theorem process_user_message_appends:
  "\<exists>reply tr'.
     process_user_message E (JStr m) chat_history tr =
       (reply,
        chat_history @ (if m \<noteq> [] then [\<lparr>role = User, content = JStr m\<rparr>] else [])
                     @ [\<lparr>role = Assistant, content = reply\<rparr>],
        tr') \<and>
     (chat_completions_create E
        (tr @ [LLMCall (chat_history @ (if m \<noteq> [] then [\<lparr>role = User, content = JStr m\<rparr>] else []))])
        = LLMRaises \<longrightarrow> reply = JStr fallback_reply)"
proof (cases "m = []")
  case True
  then show ?thesis
    by (auto simp: process_user_message_unfold Let_def compute_reply_llm_raises)
next
  case False
  then show ?thesis
    by (auto simp: process_user_message_unfold Let_def compute_reply_llm_raises)
qed

text \<open>The model is down and the user says hello: a user turn, then the apology.\<close>

theorem process_user_message_appends_witness:
  "process_user_message llm_down_env (JStr ''hello'') initial_history [] =
     (JStr fallback_reply,
      initial_history @ [\<lparr>role = User, content = JStr ''hello''\<rparr>,
                         \<lparr>role = Assistant, content = JStr fallback_reply\<rparr>],
      [LLMCall (initial_history @ [\<lparr>role = User, content = JStr ''hello''\<rparr>])])"
  using process_user_message_appends [of llm_down_env "''hello''" initial_history "[]"]
  by (simp add: process_user_message_def compute_reply_def llm_down_env_def quiet_env_def)

section \<open>Booking extraction: what it does to the outside\<close>

lemma check_for_booking_raises:
  "extraction_raises (chat_completions_create E (tr @ [LLMCall h])) \<Longrightarrow>
   check_for_booking E h tr = tr @ [LLMCall h]"
  by (cases "chat_completions_create E (tr @ [LLMCall h])" rule: extraction_raises.cases)
     (simp_all add: check_for_booking_def)

lemma check_for_booking_dispatch:
  "chat_completions_create E (tr @ [LLMCall h]) = LLMMessage c (Some (JObj args) # tcs) \<Longrightarrow>
   MAKE_WEBHOOK_URL E = Some url \<Longrightarrow> url \<noteq> [] \<Longrightarrow>
   check_for_booking E h tr =
     tr @ [LLMCall h, WebhookPost url (JObj (obj_set args ''action'' (JStr ''book'')))]"
  by (simp add: check_for_booking_def send_to_make_def Let_def split: post_outcome.splits)

lemma send_to_make_no_llm:
  "\<exists>new. snd (send_to_make E data tr) = tr @ new \<and> filter is_llm_call new = []"
  by (auto simp: send_to_make_def Let_def split: option.splits post_outcome.splits)

lemma check_for_booking_trace:
  "\<exists>rest. check_for_booking E h tr = tr @ LLMCall h # rest \<and> filter is_llm_call rest = []"
proof (cases "chat_completions_create E (tr @ [LLMCall h])")
  case LLMRaises
  then show ?thesis by (simp add: check_for_booking_def)
next
  case (LLMMessage c tcs)
  show ?thesis
  proof (cases tcs)
    case Nil
    with LLMMessage show ?thesis by (simp add: check_for_booking_def)
  next
    case (Cons tc more)
    show ?thesis
    proof (cases "case tc of None \<Rightarrow> None | Some loaded \<Rightarrow> set_action loaded")
      case None
      with LLMMessage Cons show ?thesis
        by (simp add: check_for_booking_def split: option.splits)
    next
      case (Some fa)
      obtain new where "snd (send_to_make E fa (tr @ [LLMCall h])) = (tr @ [LLMCall h]) @ new"
        and "filter is_llm_call new = []"
        using send_to_make_no_llm by blast
      with Some LLMMessage Cons show ?thesis
        by (auto simp add: check_for_booking_def split: option.splits)
    qed
  qed
qed

section \<open>The body of the upstream loop, event by event\<close>

lemma body_user_transcript:
  "is_user_transcript ev v \<Longrightarrow>
   receive_from_openai_body E ev s tr =
     (let s' = (if truthy v
                then s\<lparr>session_chat_history := session_chat_history s @ [\<lparr>role = User, content = v\<rparr>]\<rparr>
                else s);
          tr1 = (if truthy v then check_for_booking E (session_chat_history s') tr else tr);
          tr2 = tr1 @ [ClientJson (user_transcript_msg v)]
      in (client_send_ok E tr2, s', tr2))"
  by (cases "(ev, v)" rule: is_user_transcript.cases)
     (simp_all add: receive_from_openai_body_def Let_def)

lemma body_transcript_delta:
  "is_transcript_delta ev d \<Longrightarrow>
   receive_from_openai_body E ev s tr =
     (client_send_ok E (tr @ [ClientJson (transcript_msg (JStr d))]),
      s\<lparr>current_ai_response := current_ai_response s @ d\<rparr>,
      tr @ [ClientJson (transcript_msg (JStr d))])"
  by (cases "(ev, d)" rule: is_transcript_delta.cases)
     (simp_all add: receive_from_openai_body_def Let_def)

lemma body_response_done:
  "is_response_done ev \<Longrightarrow>
   receive_from_openai_body E ev s tr =
     (client_send_ok E (tr @ [ClientJson response_end_msg]),
      (if current_ai_response s \<noteq> []
       then s\<lparr>session_chat_history := session_chat_history s @
                 [\<lparr>role = Assistant, content = JStr (current_ai_response s)\<rparr>],
              current_ai_response := []\<rparr>
       else s),
      tr @ [ClientJson response_end_msg])"
  by (cases ev rule: is_response_done.cases)
     (simp_all add: receive_from_openai_body_def Let_def)

lemma body_extends:
  "\<exists>new. snd (snd (receive_from_openai_body E m s tr)) = tr @ new"
proof -
  have cfb: "\<exists>new. check_for_booking E h tr @ [x] = tr @ new" for h x
    using check_for_booking_trace [of E h tr] by auto
  show ?thesis
    unfolding receive_from_openai_body_def Let_def
    by (auto split: option.splits json.splits simp: cfb)
qed

lemma receive_from_openai_extends:
  "\<exists>new. snd (receive_from_openai E msgs s tr) = tr @ new"
proof (induction msgs arbitrary: s tr)
  case Nil
  then show ?case by simp
next
  case (Cons m msgs)
  obtain ok s' tr' where body: "receive_from_openai_body E m s tr = (ok, s', tr')"
    by (cases "receive_from_openai_body E m s tr")
  then obtain new where new: "tr' = tr @ new"
    using body_extends [of E m s tr] by auto
  show ?case
  proof (cases ok)
    case True
    from Cons.IH [of s' tr'] obtain more where "snd (receive_from_openai E msgs s' tr') = tr' @ more"
      by blast
    with body True new show ?thesis by simp
  next
    case False
    with body new show ?thesis by simp
  qed
qed

text \<open>
  Only a completed user utterance makes the loop call the language model, and it makes
  it call once.
\<close>

lemma body_llm_calls:
  "\<exists>new. snd (snd (receive_from_openai_body E ev s tr)) = tr @ new \<and>
         length (filter is_llm_call new) = (if is_utterance ev then 1 else 0)"
proof (cases "\<exists>event. ev = Some (JObj event)")
  case False
  then have "receive_from_openai_body E ev s tr = (False, s, tr)" and "\<not> is_utterance ev"
    by (cases ev; cases "the ev"; simp add: receive_from_openai_body_def)+
  then show ?thesis by simp
next
  case True
  then obtain event where ev: "ev = Some (JObj event)" by blast
  define ty where "ty = obj_get event ''type'' JNull"
  consider (audio) "ty = JStr ''response.audio.delta''"
    | (delta) "ty = JStr ''response.audio_transcript.delta''"
    | (user) "ty = JStr ''conversation.item.input_audio_transcription.completed''"
    | (finished) "ty = JStr ''response.done''"
    | (err) "ty = JStr ''error''"
    | (other) "ty \<noteq> JStr ''response.audio.delta''"
        "ty \<noteq> JStr ''response.audio_transcript.delta''"
        "ty \<noteq> JStr ''conversation.item.input_audio_transcription.completed''"
        "ty \<noteq> JStr ''response.done''"
        "ty \<noteq> JStr ''error''"
    by blast
  then show ?thesis
  proof cases
    case audio
    then show ?thesis
      using ev by (simp add: receive_from_openai_body_def ty_def [symmetric] Let_def
          split: option.splits)
  next
    case delta
    then show ?thesis
      using ev by (simp add: receive_from_openai_body_def ty_def [symmetric] Let_def
          split: json.splits)
  next
    case user
    show ?thesis
    proof (cases "truthy (obj_get event ''transcript'' (JStr []))")
      case True
      obtain after where "check_for_booking E
            (session_chat_history s @ [\<lparr>role = User, content = obj_get event ''transcript'' (JStr [])\<rparr>]) tr
          = tr @ LLMCall (session_chat_history s @
                [\<lparr>role = User, content = obj_get event ''transcript'' (JStr [])\<rparr>]) # after"
        and "filter is_llm_call after = []"
        using check_for_booking_trace by blast
      with True user ev show ?thesis
        by (simp add: receive_from_openai_body_def ty_def [symmetric] Let_def)
    next
      case False
      with user ev show ?thesis
        by (simp add: receive_from_openai_body_def ty_def [symmetric] Let_def)
    qed
  next
    case finished
    then show ?thesis
      using ev by (simp add: receive_from_openai_body_def ty_def [symmetric] Let_def)
  next
    case err
    then show ?thesis
      using ev by (simp add: receive_from_openai_body_def ty_def [symmetric] Let_def
          split: json.splits)
  next
    case other
    then show ?thesis
      using ev by (simp add: receive_from_openai_body_def ty_def [symmetric] Let_def)
  qed
qed

lemma loop_llm_calls:
  "\<exists>new. snd (receive_from_openai E msgs s tr) = tr @ new \<and>
         length (filter is_llm_call new) \<le> length (filter is_utterance msgs)"
proof (induction msgs arbitrary: s tr)
  case Nil
  then show ?case by simp
next
  case (Cons m msgs)
  obtain ok s' tr' where body: "receive_from_openai_body E m s tr = (ok, s', tr')"
    by (cases "receive_from_openai_body E m s tr")
  from body_llm_calls [of E m s tr] body
  obtain new where new: "tr' = tr @ new"
    "length (filter is_llm_call new) = (if is_utterance m then 1 else 0)"
    by auto
  show ?case
  proof (cases ok)
    case True
    from Cons.IH [of s' tr'] obtain more
      where more: "snd (receive_from_openai E msgs s' tr') = tr' @ more"
        "length (filter is_llm_call more) \<le> length (filter is_utterance msgs)"
      by blast
    have "snd (receive_from_openai E (m # msgs) s tr) = tr @ (new @ more)"
      using body True new(1) more(1) by simp
    moreover have "length (filter is_llm_call (new @ more)) \<le> length (filter is_utterance (m # msgs))"
      using new(2) more(2) by simp
    ultimately show ?thesis by blast
  next
    case False
    have "snd (receive_from_openai E (m # msgs) s tr) = tr @ (new @ [ClientJson service_error_msg])"
      using body False new(1) by simp
    moreover have "length (filter is_llm_call (new @ [ClientJson service_error_msg]))
        \<le> length (filter is_utterance (m # msgs))"
      using new(2) by simp
    ultimately show ?thesis by blast
  qed
qed

section \<open>A completed user utterance\<close>

text \<open>
  C4. For every user-transcript-completed event carrying the text \<open>t\<close> (the empty text
  when the field is missing): when \<open>t\<close> is not empty, a user turn with \<open>t\<close> is appended
  to the log and \<^verbatim>\<open>check_for_booking\<close> is run on the new log, which begins by calling the
  language model with it; when \<open>t\<close> is empty, the session is unchanged and nothing is
  called; in both cases the last thing done is to send the browser the message of type
  \<^verbatim>\<open>user_transcript\<close> whose \<^verbatim>\<open>text\<close> is \<open>t\<close>, and the body ends normally exactly when
  that send succeeds.
\<close>

theorem user_transcript_logged_and_forwarded:
  assumes "is_user_transcript ev (JStr t)"
  shows "\<exists>ok s' tr'.
           receive_from_openai_body E ev s tr = (ok, s', tr') \<and>
           ok = client_send_ok E tr' \<and>
           s' = (if t \<noteq> []
                 then s\<lparr>session_chat_history :=
                          session_chat_history s @ [\<lparr>role = User, content = JStr t\<rparr>]\<rparr>
                 else s) \<and>
           tr' = (if t \<noteq> [] then check_for_booking E (session_chat_history s') tr else tr)
                 @ [ClientJson (JObj [(''type'', JStr ''user_transcript''), (''text'', JStr t)])] \<and>
           (\<exists>after. check_for_booking E (session_chat_history s') tr
                      = tr @ LLMCall (session_chat_history s') # after)"
proof -
  define s' where "s' = (if t \<noteq> []
                 then s\<lparr>session_chat_history :=
                          session_chat_history s @ [\<lparr>role = User, content = JStr t\<rparr>]\<rparr>
                 else s)"
  define tr' where "tr' = (if t \<noteq> [] then check_for_booking E (session_chat_history s') tr else tr)
                 @ [ClientJson (JObj [(''type'', JStr ''user_transcript''), (''text'', JStr t)])]"
  have body: "receive_from_openai_body E ev s tr = (client_send_ok E tr', s', tr')"
    using body_user_transcript [OF assms, of E s tr]
    by (simp add: Let_def s'_def tr'_def user_transcript_msg_def)
  have call: "\<exists>after. check_for_booking E (session_chat_history s') tr
                      = tr @ LLMCall (session_chat_history s') # after"
    using check_for_booking_trace [of E "session_chat_history s'" tr] by blast
  from body call show ?thesis
    unfolding s'_def tr'_def by blast
qed

theorem user_transcript_logged_and_forwarded_witness:
  "receive_from_openai_body booking_env (user_event ''Book me in'') fresh_session [] =
     (True,
      \<lparr>session_chat_history = initial_history @ [\<lparr>role = User, content = JStr ''Book me in''\<rparr>],
       current_ai_response = []\<rparr>,
      [LLMCall (initial_history @ [\<lparr>role = User, content = JStr ''Book me in''\<rparr>]),
       WebhookPost hook_url (JObj (booking_args @ [(''action'', JStr ''book'')])),
       ClientJson (JObj [(''type'', JStr ''user_transcript''), (''text'', JStr ''Book me in'')])])"
proof -
  have u: "is_user_transcript (user_event ''Book me in'') (JStr ''Book me in'')"
    by (simp add: user_event_def obj_get_def)
  show ?thesis
    using user_transcript_logged_and_forwarded [OF u, of booking_env fresh_session "[]"]
    by (simp add: receive_from_openai_body_def user_event_def obj_get_def Let_def
        user_transcript_msg_def
        check_for_booking_def send_to_make_def booking_env_def quiet_env_def
        fresh_session_def booking_args_def hook_url_def)
qed

text \<open>
  C1, as the code has it. For every user-transcript-completed event with the text \<open>t\<close>,
  the extraction is called inline. The handling of the event is: nothing when \<open>t\<close> is
  empty, otherwise one call of \<^verbatim>\<open>check_for_booking\<close>, which calls the language model once
  and then at most posts to the webhook; then the \<^verbatim>\<open>user_transcript\<close> message; and only
  then does the loop go on to the next upstream events (or stop, when that message
  could not be sent). Over the event and everything after it, the language model is
  called at most once for this utterance and once for each later utterance.
\<close>

theorem extraction_runs_inline_before_forwarding:
  assumes "is_user_transcript ev (JStr t)"
  shows "\<exists>after tr2 new.
           check_for_booking E (session_chat_history s @ [\<lparr>role = User, content = JStr t\<rparr>]) tr
             = tr @ LLMCall (session_chat_history s @ [\<lparr>role = User, content = JStr t\<rparr>]) # after \<and>
           filter is_llm_call after = [] \<and>
           tr2 = (if t = [] then tr
                  else tr @ LLMCall (session_chat_history s @ [\<lparr>role = User, content = JStr t\<rparr>]) # after)
                 @ [ClientJson (JObj [(''type'', JStr ''user_transcript''), (''text'', JStr t)])] \<and>
           receive_from_openai E (ev # rest) s tr =
             (if client_send_ok E tr2
              then receive_from_openai E rest
                     (if t = [] then s
                      else s\<lparr>session_chat_history :=
                               session_chat_history s @ [\<lparr>role = User, content = JStr t\<rparr>]\<rparr>)
                     tr2
              else (if t = [] then s
                    else s\<lparr>session_chat_history :=
                             session_chat_history s @ [\<lparr>role = User, content = JStr t\<rparr>]\<rparr>,
                    tr2 @ [ClientJson (JObj [(''type'', JStr ''error''),
                                             (''message'', JStr ''An error occurred with the AI service.'')])])) \<and>
           snd (receive_from_openai E (ev # rest) s tr) = tr @ new \<and>
           length (filter is_llm_call new)
             \<le> (if t = [] then 0 else 1) + length (filter is_utterance rest)"
proof -
  define h where "h = session_chat_history s @ [\<lparr>role = User, content = JStr t\<rparr>]"
  define s' where "s' = (if t = [] then s else s\<lparr>session_chat_history := h\<rparr>)"
  obtain after where after: "check_for_booking E h tr = tr @ LLMCall h # after"
    "filter is_llm_call after = []"
    using check_for_booking_trace [of E h tr] by blast
  define tr2 where "tr2 = (if t = [] then tr else tr @ LLMCall h # after)
                 @ [ClientJson (JObj [(''type'', JStr ''user_transcript''), (''text'', JStr t)])]"
  have body: "receive_from_openai_body E ev s tr = (client_send_ok E tr2, s', tr2)"
    using body_user_transcript [OF assms, of E s tr] after(1)
    by (simp add: Let_def s'_def tr2_def h_def user_transcript_msg_def)
  have loop: "receive_from_openai E (ev # rest) s tr =
      (if client_send_ok E tr2 then receive_from_openai E rest s' tr2
       else (s', tr2 @ [ClientJson (JObj [(''type'', JStr ''error''),
                                             (''message'', JStr ''An error occurred with the AI service.'')])]))"
    using body by (simp add: service_error_msg_def error_msg_def)
  have utt: "is_utterance ev = (t \<noteq> [])"
  proof -
    obtain event where "ev = Some (JObj event)"
      and "obj_get event ''type'' JNull = JStr ''conversation.item.input_audio_transcription.completed''"
      and "obj_get event ''transcript'' (JStr []) = JStr t"
      using assms by (cases "(ev, JStr t)" rule: is_user_transcript.cases) simp_all
    then show ?thesis by simp
  qed
  obtain new where new: "snd (receive_from_openai E (ev # rest) s tr) = tr @ new"
    "length (filter is_llm_call new) \<le> length (filter is_utterance (ev # rest))"
    using loop_llm_calls [of E "ev # rest" s tr] by blast
  have bound: "length (filter is_llm_call new) \<le> (if t = [] then 0 else 1) + length (filter is_utterance rest)"
    using new(2) utt by (simp split: if_splits)
  show ?thesis
    using after loop new(1) bound
    unfolding h_def s'_def tr2_def
    by (intro exI [of _ after] exI [of _ tr2] exI [of _ new]) (simp add: tr2_def h_def)
qed

theorem extraction_runs_inline_witness:
  "snd (receive_from_openai llm_down_env [user_event ''Hi'', delta_event ''Hello''] fresh_session []) =
     [LLMCall (initial_history @ [\<lparr>role = User, content = JStr ''Hi''\<rparr>]),
      ClientJson (JObj [(''type'', JStr ''user_transcript''), (''text'', JStr ''Hi'')]),
      ClientJson (JObj [(''type'', JStr ''transcript''), (''text'', JStr ''Hello'')])]"
proof -
  have u: "is_user_transcript (user_event ''Hi'') (JStr ''Hi'')"
    by (simp add: user_event_def obj_get_def)
  show ?thesis
    using extraction_runs_inline_before_forwarding
            [OF u, of llm_down_env fresh_session "[]" "[delta_event ''Hello'']"]
    by (simp add: receive_from_openai_body_def user_event_def delta_event_def obj_get_def Let_def
        user_transcript_msg_def transcript_msg_def
        check_for_booking_def llm_down_env_def quiet_env_def fresh_session_def)
qed

text \<open>
  The sentence of the specification, that the loop goes on to the next upstream event
  without waiting for the extraction, fails. Here the model calls the booking tool; the
  webhook request, which carries the answer of the model, is issued before the user
  transcript is forwarded and before the next event, a transcript delta, reaches the
  browser.
\<close>

theorem extraction_blocks_forwarding_counterexample:
  "snd (receive_from_openai booking_env [user_event ''Book me in'', delta_event ''Done''] fresh_session []) =
     [LLMCall (initial_history @ [\<lparr>role = User, content = JStr ''Book me in''\<rparr>]),
      WebhookPost hook_url (JObj (booking_args @ [(''action'', JStr ''book'')])),
      ClientJson (JObj [(''type'', JStr ''user_transcript''), (''text'', JStr ''Book me in'')]),
      ClientJson (JObj [(''type'', JStr ''transcript''), (''text'', JStr ''Done'')])]"
  by (simp add: receive_from_openai_body_def user_event_def delta_event_def obj_get_def Let_def
      user_transcript_msg_def transcript_msg_def
      check_for_booking_def send_to_make_def booking_env_def quiet_env_def fresh_session_def
      booking_args_def hook_url_def)

section \<open>Failures of the extraction and of the webhook\<close>

text \<open>
  C6. When the booking check raises (the call to the language model, the parsing of the
  tool-call arguments or the assignment of the action), and the browser accepts the
  \<^verbatim>\<open>user_transcript\<close> message, the loop goes on with the next upstream events: the user
  turn is in the log, the buffer is untouched, no webhook request was made and the only
  message the browser got for this event is the \<^verbatim>\<open>user_transcript\<close> one.
\<close>

theorem extraction_failure_is_swallowed:
  assumes "is_user_transcript ev (JStr t)" and "t \<noteq> []"
    and "extraction_raises (chat_completions_create E
           (tr @ [LLMCall (session_chat_history s @ [\<lparr>role = User, content = JStr t\<rparr>])]))"
    and "client_send_ok E
           (tr @ [LLMCall (session_chat_history s @ [\<lparr>role = User, content = JStr t\<rparr>]),
                  ClientJson (user_transcript_msg (JStr t))])"
  shows "receive_from_openai E (ev # rest) s tr =
           receive_from_openai E rest
             (s\<lparr>session_chat_history := session_chat_history s @ [\<lparr>role = User, content = JStr t\<rparr>]\<rparr>)
             (tr @ [LLMCall (session_chat_history s @ [\<lparr>role = User, content = JStr t\<rparr>]),
                    ClientJson (user_transcript_msg (JStr t))])"
  using assms(2-4) body_user_transcript [OF assms(1), of E s tr]
  by (simp add: Let_def check_for_booking_raises)

theorem extraction_failure_is_swallowed_witness:
  "receive_from_openai llm_down_env [user_event ''Hi'', delta_event ''Hello'', done_event] fresh_session [] =
     (\<lparr>session_chat_history = initial_history @
          [\<lparr>role = User, content = JStr ''Hi''\<rparr>, \<lparr>role = Assistant, content = JStr ''Hello''\<rparr>],
       current_ai_response = []\<rparr>,
      [LLMCall (initial_history @ [\<lparr>role = User, content = JStr ''Hi''\<rparr>]),
       ClientJson (user_transcript_msg (JStr ''Hi'')),
       ClientJson (transcript_msg (JStr ''Hello'')),
       ClientJson response_end_msg])"
proof -
  have u: "is_user_transcript (user_event ''Hi'') (JStr ''Hi'')"
    by (simp add: user_event_def obj_get_def)
  have n: "''Hi'' \<noteq> []" by simp
  have r: "extraction_raises (chat_completions_create llm_down_env
           ([] @ [LLMCall (session_chat_history fresh_session @ [\<lparr>role = User, content = JStr ''Hi''\<rparr>])]))"
    by (simp add: llm_down_env_def quiet_env_def)
  have c: "client_send_ok llm_down_env
           ([] @ [LLMCall (session_chat_history fresh_session @ [\<lparr>role = User, content = JStr ''Hi''\<rparr>]),
                  ClientJson (user_transcript_msg (JStr ''Hi''))])"
    by (simp add: llm_down_env_def quiet_env_def)
  show ?thesis
    using extraction_failure_is_swallowed [OF u n r c, of "[delta_event ''Hello'', done_event]"]
    by (simp add: receive_from_openai_body_def delta_event_def done_event_def obj_get_def Let_def
        llm_down_env_def quiet_env_def fresh_session_def)
qed

text \<open>
  C7. When the model calls the booking tool and the delivery to the webhook fails (the
  request raises, or its status is outside 200..299), and the browser accepts the
  \<^verbatim>\<open>user_transcript\<close> message, the loop goes on with the next upstream events: the
  session is what it would be without the failure, exactly one webhook request was made
  and the only message the browser got for this event is the \<^verbatim>\<open>user_transcript\<close> one.
\<close>

theorem webhook_failure_is_silent:
  assumes "is_user_transcript ev (JStr t)" and "t \<noteq> []"
    and "chat_completions_create E
           (tr @ [LLMCall (session_chat_history s @ [\<lparr>role = User, content = JStr t\<rparr>])])
         = LLMMessage reply_content (Some (JObj args) # tcs)"
    and "MAKE_WEBHOOK_URL E = Some url" and "url \<noteq> []"
    and "delivery_failed (requests_post E
           (tr @ [LLMCall (session_chat_history s @ [\<lparr>role = User, content = JStr t\<rparr>]),
                  WebhookPost url (JObj (obj_set args ''action'' (JStr ''book'')))]))"
    and "client_send_ok E
           (tr @ [LLMCall (session_chat_history s @ [\<lparr>role = User, content = JStr t\<rparr>]),
                  WebhookPost url (JObj (obj_set args ''action'' (JStr ''book''))),
                  ClientJson (user_transcript_msg (JStr t))])"
  shows "receive_from_openai E (ev # rest) s tr =
           receive_from_openai E rest
             (s\<lparr>session_chat_history := session_chat_history s @ [\<lparr>role = User, content = JStr t\<rparr>]\<rparr>)
             (tr @ [LLMCall (session_chat_history s @ [\<lparr>role = User, content = JStr t\<rparr>]),
                    WebhookPost url (JObj (obj_set args ''action'' (JStr ''book''))),
                    ClientJson (user_transcript_msg (JStr t))])"
  using assms(2,7) body_user_transcript [OF assms(1), of E s tr]
    check_for_booking_dispatch [OF assms(3-5)]
  by (simp add: Let_def)

theorem webhook_failure_is_silent_witness:
  "receive_from_openai broken_hook_env [user_event ''Book me in'', done_event] fresh_session [] =
     (\<lparr>session_chat_history = initial_history @ [\<lparr>role = User, content = JStr ''Book me in''\<rparr>],
       current_ai_response = []\<rparr>,
      [LLMCall (initial_history @ [\<lparr>role = User, content = JStr ''Book me in''\<rparr>]),
       WebhookPost hook_url (JObj (booking_args @ [(''action'', JStr ''book'')])),
       ClientJson (user_transcript_msg (JStr ''Book me in'')),
       ClientJson response_end_msg])"
proof -
  let ?h = "session_chat_history fresh_session @ [\<lparr>role = User, content = JStr ''Book me in''\<rparr>]"
  have u: "is_user_transcript (user_event ''Book me in'') (JStr ''Book me in'')"
    by (simp add: user_event_def obj_get_def)
  have n: "''Book me in'' \<noteq> []" by simp
  have m: "chat_completions_create broken_hook_env ([] @ [LLMCall ?h])
           = LLMMessage JNull (Some (JObj booking_args) # [])"
    by (simp add: broken_hook_env_def booking_env_def quiet_env_def)
  have w: "MAKE_WEBHOOK_URL broken_hook_env = Some hook_url"
    by (simp add: broken_hook_env_def booking_env_def quiet_env_def)
  have e: "hook_url \<noteq> []" by (simp add: hook_url_def)
  have f: "delivery_failed (requests_post broken_hook_env
           ([] @ [LLMCall ?h, WebhookPost hook_url (JObj (obj_set booking_args ''action'' (JStr ''book'')))]))"
    by (simp add: broken_hook_env_def booking_env_def quiet_env_def)
  have c: "client_send_ok broken_hook_env
           ([] @ [LLMCall ?h, WebhookPost hook_url (JObj (obj_set booking_args ''action'' (JStr ''book''))),
                  ClientJson (user_transcript_msg (JStr ''Book me in''))])"
    by (simp add: broken_hook_env_def booking_env_def quiet_env_def)
  show ?thesis
    using webhook_failure_is_silent [OF u n m w e f c, of "[done_event]"]
    by (simp add: receive_from_openai_body_def done_event_def obj_get_def Let_def
        broken_hook_env_def booking_env_def quiet_env_def fresh_session_def booking_args_def)
qed

section \<open>Assistant utterances\<close>

lemma reset_empty_buffer:
  "current_ai_response s = [] \<Longrightarrow> s\<lparr>current_ai_response := []\<rparr> = s"
  by simp

lemma deltas_then_done:
  "list_all2 is_transcript_delta evs ds \<Longrightarrow> is_response_done boundary \<Longrightarrow>
   \<forall>tr. client_send_ok E tr \<Longrightarrow>
   receive_from_openai E (evs @ boundary # rest) s tr =
     receive_from_openai E rest
       (if current_ai_response s @ concat ds \<noteq> []
        then s\<lparr>session_chat_history := session_chat_history s @
                  [\<lparr>role = Assistant, content = JStr (current_ai_response s @ concat ds)\<rparr>],
               current_ai_response := []\<rparr>
        else s)
       (tr @ map (\<lambda>d. ClientJson (transcript_msg (JStr d))) ds @ [ClientJson response_end_msg])"
proof (induction evs ds arbitrary: s tr rule: list_all2_induct)
  case Nil
  then show ?case by (simp add: body_response_done)
next
  case (Cons ev evs d ds)
  from Cons.hyps(1) Cons.prems(2)
  have step: "receive_from_openai E ((ev # evs) @ boundary # rest) s tr =
      receive_from_openai E (evs @ boundary # rest)
        (s\<lparr>current_ai_response := current_ai_response s @ d\<rparr>)
        (tr @ [ClientJson (transcript_msg (JStr d))])"
    by (simp add: body_transcript_delta)
  show ?case
    unfolding step
    by (simp add: Cons.IH [OF Cons.prems] reset_empty_buffer)
qed

text \<open>
  C2, as the code has it. Take the transcript deltas between two completion boundaries,
  the buffer being empty at the first one, and let the browser accept every send. At the
  second boundary the log gains one assistant turn holding the concatenation of the
  delta texts when that concatenation is not empty, and no turn when it is empty; the
  browser got one \<^verbatim>\<open>transcript\<close> message per delta, in order, then \<^verbatim>\<open>response_end\<close>; and
  the loop goes on with the next events. After the body has handled a completion
  boundary, from any state, the buffer is empty.
\<close>

theorem assistant_turn_flushed_at_boundary:
  assumes "list_all2 is_transcript_delta evs ds"
    and "is_response_done boundary"
    and "\<forall>tr. client_send_ok E tr"
    and "current_ai_response s = []"
  shows "receive_from_openai E (evs @ boundary # rest) s tr =
           receive_from_openai E rest
             (s\<lparr>session_chat_history := session_chat_history s @
                   (if concat ds = [] then []
                    else [\<lparr>role = Assistant, content = JStr (concat ds)\<rparr>]),
                current_ai_response := []\<rparr>)
             (tr @ map (\<lambda>d. ClientJson (transcript_msg (JStr d))) ds @ [ClientJson response_end_msg])
         \<and> current_ai_response (fst (snd (receive_from_openai_body E boundary s0 tr0))) = []"
proof -
  have same: "s\<lparr>current_ai_response := []\<rparr> = s"
    using assms(4) by simp
  have loop: "receive_from_openai E (evs @ boundary # rest) s tr =
      receive_from_openai E rest
        (if concat ds \<noteq> []
         then s\<lparr>session_chat_history := session_chat_history s @
                   [\<lparr>role = Assistant, content = JStr (concat ds)\<rparr>],
                current_ai_response := []\<rparr>
         else s)
        (tr @ map (\<lambda>d. ClientJson (transcript_msg (JStr d))) ds @ [ClientJson response_end_msg])"
    using deltas_then_done [OF assms(1-3), of rest s tr] assms(4) by simp
  have flushed: "current_ai_response (fst (snd (receive_from_openai_body E boundary s0 tr0))) = []"
    using assms(2) by (simp add: body_response_done)
  show ?thesis
  proof (cases "concat ds = []")
    case True
    with loop flushed same show ?thesis by (simp del: concat_eq_Nil_conv)
  next
    case False
    with loop flushed show ?thesis by (simp del: concat_eq_Nil_conv)
  qed
qed

theorem assistant_turn_flushed_witness:
  "receive_from_openai quiet_env [delta_event ''Hello'', delta_event ''!'', done_event] fresh_session [] =
     (\<lparr>session_chat_history = initial_history @ [\<lparr>role = Assistant, content = JStr ''Hello!''\<rparr>],
       current_ai_response = []\<rparr>,
      [ClientJson (transcript_msg (JStr ''Hello'')), ClientJson (transcript_msg (JStr ''!'')),
       ClientJson response_end_msg])"
proof -
  have d: "list_all2 is_transcript_delta [delta_event ''Hello'', delta_event ''!''] [''Hello'', ''!'']"
    by (simp add: delta_event_def obj_get_def)
  have b: "is_response_done done_event"
    by (simp add: done_event_def obj_get_def)
  have c: "\<forall>tr. client_send_ok quiet_env tr"
    by (simp add: quiet_env_def)
  have e: "current_ai_response fresh_session = []"
    by (simp add: fresh_session_def)
  show ?thesis
    using assistant_turn_flushed_at_boundary [OF d b c e, of "[]" "[]" fresh_session "[]"]
    by (simp add: fresh_session_def)
qed

text \<open>
  The sentence of the specification, one assistant turn at every boundary, fails when the deltas
  between two boundaries carry no text: after a boundary, a delta with the empty text
  and a second boundary, the session is the one the loop started with.
\<close>

theorem empty_utterance_counterexample:
  "fst (receive_from_openai quiet_env [done_event, delta_event [], done_event] fresh_session [])
     = fresh_session"
  by (simp add: receive_from_openai_body_def done_event_def delta_event_def obj_get_def
      quiet_env_def fresh_session_def)

text \<open>
  In a real stream other events arrive between two boundaries: audio deltas, completed
  user utterances, events the loop ignores. As long as no pass through the body raises,
  they add user turns to the log and nothing but the delta texts to the buffer, so the
  boundary still appends one assistant turn with the concatenation of the delta texts,
  or none when it is empty.
\<close>

lemma bodies_ok_then_loop:
  "bodies_ok E evs s tr = Some (s1, tr1) \<Longrightarrow>
   receive_from_openai E (evs @ rest) s tr = receive_from_openai E rest s1 tr1"
proof (induction evs arbitrary: s tr)
  case Nil
  then show ?case by simp
next
  case (Cons ev evs)
  obtain ok s' tr' where body: "receive_from_openai_body E ev s tr = (ok, s', tr')"
    by (cases "receive_from_openai_body E ev s tr")
  with Cons.prems have "ok" and "bodies_ok E evs s' tr' = Some (s1, tr1)"
    by (auto split: if_splits)
  with Cons.IH [of s' tr'] body show ?case by simp
qed

lemma body_between_boundaries:
  assumes "\<not> is_response_done ev"
  shows "\<exists>users. fst (snd (receive_from_openai_body E ev s tr)) =
           s\<lparr>session_chat_history := session_chat_history s @ users,
             current_ai_response := current_ai_response s @ delta_text ev\<rparr>
         \<and> list_all (\<lambda>t. role t = User) users"
proof -
  have unchanged: "\<exists>users. s = s\<lparr>session_chat_history := session_chat_history s @ users,
             current_ai_response := current_ai_response s @ []\<rparr>
         \<and> list_all (\<lambda>t. role t = User) users"
    by (rule exI [of _ "[]"]) simp
  show ?thesis
  proof (cases "\<exists>event. ev = Some (JObj event)")
    case False
    then have "receive_from_openai_body E ev s tr = (False, s, tr)" and "delta_text ev = []"
      by (cases ev; cases "the ev"; simp add: receive_from_openai_body_def)+
    with unchanged show ?thesis by simp
  next
    case True
    then obtain event where ev: "ev = Some (JObj event)" by blast
    define ty where "ty = obj_get event ''type'' JNull"
    from assms ev have nd: "ty \<noteq> JStr ''response.done''"
      by (simp add: ty_def)
    consider (audio) "ty = JStr ''response.audio.delta''"
      | (delta) "ty = JStr ''response.audio_transcript.delta''"
      | (user) "ty = JStr ''conversation.item.input_audio_transcription.completed''"
      | (err) "ty = JStr ''error''"
      | (other) "ty \<noteq> JStr ''response.audio.delta''"
          "ty \<noteq> JStr ''response.audio_transcript.delta''"
          "ty \<noteq> JStr ''conversation.item.input_audio_transcription.completed''"
          "ty \<noteq> JStr ''error''"
      by blast
    then show ?thesis
    proof cases
      case audio
      then have "fst (snd (receive_from_openai_body E ev s tr)) = s" and "delta_text ev = []"
        using ev by (simp_all add: receive_from_openai_body_def ty_def [symmetric] Let_def
            split: option.splits)
      with unchanged show ?thesis by simp
    next
      case delta
      show ?thesis
      proof (cases "obj_get event ''delta'' (JStr [])")
        case (JStr d)
        with delta ev have "fst (snd (receive_from_openai_body E ev s tr)) =
            s\<lparr>current_ai_response := current_ai_response s @ d\<rparr>" and "delta_text ev = d"
          by (simp_all add: receive_from_openai_body_def ty_def [symmetric] Let_def)
        then show ?thesis by (intro exI [of _ "[]"]) simp
      qed (use delta ev unchanged in
            \<open>simp_all add: receive_from_openai_body_def ty_def [symmetric] Let_def\<close>)
    next
      case user
      then have dt: "delta_text ev = []"
        using ev by (simp add: ty_def [symmetric])
      show ?thesis
      proof (cases "truthy (obj_get event ''transcript'' (JStr []))")
        case True
        with user ev have "fst (snd (receive_from_openai_body E ev s tr)) =
            s\<lparr>session_chat_history := session_chat_history s @
                 [\<lparr>role = User, content = obj_get event ''transcript'' (JStr [])\<rparr>]\<rparr>"
          by (simp add: receive_from_openai_body_def ty_def [symmetric] Let_def)
        with dt show ?thesis
          by (intro exI [of _ "[\<lparr>role = User, content = obj_get event ''transcript'' (JStr [])\<rparr>]"])
             simp
      next
        case False
        with user ev have "fst (snd (receive_from_openai_body E ev s tr)) = s"
          by (simp add: receive_from_openai_body_def ty_def [symmetric] Let_def)
        with dt unchanged show ?thesis by simp
      qed
    next
      case err
      then have "fst (snd (receive_from_openai_body E ev s tr)) = s" and "delta_text ev = []"
        using ev by (simp_all add: receive_from_openai_body_def ty_def [symmetric] Let_def
            split: json.splits)
      with unchanged show ?thesis by simp
    next
      case other
      with nd have "fst (snd (receive_from_openai_body E ev s tr)) = s" and "delta_text ev = []"
        using ev by (simp_all add: receive_from_openai_body_def ty_def [symmetric] Let_def)
      with unchanged show ?thesis by simp
    qed
  qed
qed

lemma bodies_between_boundaries:
  "bodies_ok E evs s tr = Some (s1, tr1) \<Longrightarrow> list_all (\<lambda>ev. \<not> is_response_done ev) evs \<Longrightarrow>
   \<exists>users. s1 = s\<lparr>session_chat_history := session_chat_history s @ users,
                   current_ai_response := current_ai_response s @ concat (map delta_text evs)\<rparr>
         \<and> list_all (\<lambda>t. role t = User) users"
proof (induction evs arbitrary: s tr)
  case Nil
  then show ?case by (auto intro: exI [of _ "[]"])
next
  case (Cons ev evs)
  obtain ok s' tr' where body: "receive_from_openai_body E ev s tr = (ok, s', tr')"
    by (cases "receive_from_openai_body E ev s tr")
  with Cons.prems have run: "bodies_ok E evs s' tr' = Some (s1, tr1)"
    by (auto split: if_splits)
  from Cons.prems have nd: "\<not> is_response_done ev" and rest: "list_all (\<lambda>ev. \<not> is_response_done ev) evs"
    by simp_all
  from body_between_boundaries [OF nd, of E s tr] body
  obtain us where s': "s' = s\<lparr>session_chat_history := session_chat_history s @ us,
             current_ai_response := current_ai_response s @ delta_text ev\<rparr>"
    and us: "list_all (\<lambda>t. role t = User) us"
    by auto
  from Cons.IH [OF run rest]
  obtain us' where s1: "s1 = s'\<lparr>session_chat_history := session_chat_history s' @ us',
                   current_ai_response := current_ai_response s' @ concat (map delta_text evs)\<rparr>"
    and us': "list_all (\<lambda>t. role t = User) us'"
    by auto
  have "s1 = s\<lparr>session_chat_history := session_chat_history s @ (us @ us'),
                   current_ai_response := current_ai_response s @ concat (map delta_text (ev # evs))\<rparr>"
    using s1 s' by simp
  moreover have "list_all (\<lambda>t. role t = User) (us @ us')"
    using us us' by simp
  ultimately show ?case by blast
qed

lemma mixed_events_flushed_at_boundary:
  assumes "bodies_ok E evs s tr = Some (s1, tr1)"
    and "list_all (\<lambda>ev. \<not> is_response_done ev) evs"
    and "is_response_done boundary"
    and "current_ai_response s = []"
  shows "\<exists>users. list_all (\<lambda>t. role t = User) users \<and>
           fst (receive_from_openai E (evs @ [boundary]) s tr) =
             \<lparr>session_chat_history = session_chat_history s @ users @
                 (if concat (map delta_text evs) = [] then []
                  else [\<lparr>role = Assistant, content = JStr (concat (map delta_text evs))\<rparr>]),
              current_ai_response = []\<rparr>"
proof -
  from bodies_between_boundaries [OF assms(1,2)] assms(4)
  obtain users where s1: "s1 = s\<lparr>session_chat_history := session_chat_history s @ users,
                   current_ai_response := concat (map delta_text evs)\<rparr>"
    and users: "list_all (\<lambda>t. role t = User) users"
    by auto
  have loop: "receive_from_openai E (evs @ [boundary]) s tr = receive_from_openai E [boundary] s1 tr1"
    by (rule bodies_ok_then_loop [OF assms(1)])
  have "fst (receive_from_openai E [boundary] s1 tr1) =
          (if current_ai_response s1 \<noteq> []
           then s1\<lparr>session_chat_history := session_chat_history s1 @
                 [\<lparr>role = Assistant, content = JStr (current_ai_response s1)\<rparr>],
              current_ai_response := []\<rparr>
           else s1)"
    using assms(3) by (simp add: body_response_done)
  with loop s1 users show ?thesis
    by (cases "concat (map delta_text evs) = []")
       (auto simp del: concat_eq_Nil_conv intro!: exI [of _ users])
qed

lemma mixed_events_example:
  "fst (receive_from_openai quiet_env
          [created_event, delta_event ''Hello'', user_event ''Hi'', delta_event ''!'', done_event]
          fresh_session []) =
     \<lparr>session_chat_history = initial_history @
         [\<lparr>role = User, content = JStr ''Hi''\<rparr>, \<lparr>role = Assistant, content = JStr ''Hello!''\<rparr>],
      current_ai_response = []\<rparr>"
  by (simp add: receive_from_openai_body_def created_event_def delta_event_def user_event_def
      done_event_def obj_get_def Let_def check_for_booking_def quiet_env_def fresh_session_def)

section \<open>Audio from the browser\<close>

lemma receive_from_client_chunks:
  "\<forall>tr. upstream_send E tr = None \<Longrightarrow> Disconnect \<notin> set frames \<Longrightarrow>
   receive_from_client E frames tr =
     tr @ map (\<lambda>data. UpstreamSend (append_event data)) (audio_chunks frames)"
proof (induction frames arbitrary: tr)
  case Nil
  then show ?case by (simp add: audio_chunks_def)
next
  case (Cons frame frames)
  then show ?case by (cases frame) (simp_all add: audio_chunks_def)
qed

text \<open>
  C3, as the code has it. While upstream accepts every send, the frames received before
  the disconnect are forwarded as follows: each binary frame with at least one byte
  becomes exactly one \<^verbatim>\<open>input_audio_buffer.append\<close> event whose \<^verbatim>\<open>audio\<close> is the base64
  encoding of its bytes, in the order of arrival; text frames and binary frames without
  bytes produce nothing, and the loop goes on after them.
\<close>

theorem receive_from_client_forwards_audio:
  assumes "\<forall>tr. upstream_send E tr = None"
    and "Disconnect \<notin> set frames"
  shows "receive_from_client E frames tr =
           tr @ map (\<lambda>data. UpstreamSend
                       (JObj [(''type'', JStr ''input_audio_buffer.append''),
                              (''audio'', JStr (b64encode data))]))
                    (audio_chunks frames)
         \<and> receive_from_client E (TextFrame t # frames) tr = receive_from_client E frames tr"
  using receive_from_client_chunks [OF assms, of tr] by (simp add: append_event_def)

theorem receive_from_client_forwards_audio_witness:
  "receive_from_client quiet_env
     [BinaryFrame [77, 97, 110], TextFrame ''ping'', BinaryFrame [], BinaryFrame [77]] [] =
     [UpstreamSend (JObj [(''type'', JStr ''input_audio_buffer.append''), (''audio'', JStr ''TWFu'')]),
      UpstreamSend (JObj [(''type'', JStr ''input_audio_buffer.append''), (''audio'', JStr ''TQ=='')])]"
proof -
  have a: "\<forall>tr. upstream_send quiet_env tr = None"
    by (simp add: quiet_env_def)
  have b: "Disconnect \<notin> set [BinaryFrame [77, 97, 110], TextFrame ''ping'', BinaryFrame [], BinaryFrame [77]]"
    by simp
  show ?thesis
    using receive_from_client_forwards_audio [OF a b, of "[]" "[]"]
    by (simp add: audio_chunks_def b64_char_def b64_alphabet_def)
qed

text \<open>
  The sentence of the specification, one event for each binary frame, fails for a binary frame with
  no bytes: of these two binary frames only the second is forwarded.
\<close>

theorem empty_binary_frame_counterexample:
  "receive_from_client quiet_env [BinaryFrame [], BinaryFrame [77]] [] =
     [UpstreamSend (JObj [(''type'', JStr ''input_audio_buffer.append''), (''audio'', JStr ''TQ=='')])]"
  by (simp add: quiet_env_def append_event_def b64_char_def b64_alphabet_def)

text \<open>The encoder on two full groups and a padded one.\<close>

lemma b64encode_seven_bytes:
  "b64encode [255, 255, 255, 0, 0, 0, 1] = ''////AAAAAQ==''"
  by (simp add: b64_char_def b64_alphabet_def)

end
